theory Spec2Isabelle
  imports Main "HOL-Library.Sublist" "HOL-Library.AList"
begin

section \<open>Strings and paths\<close>

text \<open>
  JavaScript string primitives used by \<^verbatim>\<open>src/utils/importer.js\<close>:
  \<^verbatim>\<open>s.split(c)\<close> for a one-character separator, \<^verbatim>\<open>s.includes(p)\<close>,
  \<^verbatim>\<open>s.replace(p, r)\<close> with a string pattern (first occurrence only), and
  \<^verbatim>\<open>s.split(/\r?\n/)\<close>.
\<close>

fun split_on :: "char \<Rightarrow> string \<Rightarrow> string list" where
  "split_on c [] = [[]]"
| "split_on c (x # xs) =
     (if x = c then [] # split_on c xs
      else (case split_on c xs of
              [] \<Rightarrow> [[x]]
            | w # ws \<Rightarrow> (x # w) # ws))"

fun includes_str :: "string \<Rightarrow> string \<Rightarrow> bool" where
  "includes_str [] p = (p = [])"
| "includes_str (x # xs) p = (prefix p (x # xs) \<or> includes_str xs p)"

text \<open>
  The replacement text of \<^verbatim>\<open>replace\<close> for a string pattern: \<^verbatim>\<open>$$\<close> is a dollar
  sign, \<^verbatim>\<open>$&\<close> the matched text, \<^verbatim>\<open>$`\<close> the text before the match and
  \<^verbatim>\<open>$'\<close> the text after it; a string pattern has no groups, so any other
  \<^verbatim>\<open>$\<close> stands for itself.
\<close>

fun expandReplacement :: "string \<Rightarrow> string \<Rightarrow> string \<Rightarrow> string \<Rightarrow> string" where
  "expandReplacement [] matched before after = []"
| "expandReplacement [c] matched before after = [c]"
| "expandReplacement (c # d # r) matched before after =
     (if c = CHR 0x24 then
        (if d = CHR 0x24 then CHR 0x24 # expandReplacement r matched before after
         else if d = CHR 0x26 then matched @ expandReplacement r matched before after
         else if d = CHR 0x60 then before @ expandReplacement r matched before after
         else if d = CHR 0x27 then after @ expandReplacement r matched before after
         else c # expandReplacement (d # r) matched before after)
      else c # expandReplacement (d # r) matched before after)"

fun replaceFrom :: "string \<Rightarrow> string \<Rightarrow> string \<Rightarrow> string \<Rightarrow> string" where
  "replaceFrom before [] p r = (if p = [] then before @ expandReplacement r [] before [] else before)"
| "replaceFrom before (x # xs) p r =
     (if prefix p (x # xs)
      then before @ expandReplacement r p before (drop (length p) (x # xs))
             @ drop (length p) (x # xs)
      else replaceFrom (before @ [x]) xs p r)"

definition replace_first :: "string \<Rightarrow> string \<Rightarrow> string \<Rightarrow> string" where
  "replace_first s p r = replaceFrom [] s p r"

definition strip_cr :: "string \<Rightarrow> string" where
  "strip_cr s = (if s \<noteq> [] \<and> last s = CHR 0x0D then butlast s else s)"

definition split_lines :: "string \<Rightarrow> string list" where
  "split_lines s =
     (let ps = split_on (CHR 0x0A) s in map strip_cr (butlast ps) @ [last ps])"

text \<open>
  Absolute POSIX paths are kept normalised, as the list of their components;
  \<open>render\<close> gives the string Node's \<^verbatim>\<open>path\<close> module would return.
  \<open>norm\<close> is the segment walk of \<^verbatim>\<open>path.resolve\<close> and
  \<^verbatim>\<open>path.join\<close>: empty and \<^verbatim>\<open>.\<close> segments are dropped and
  \<^verbatim>\<open>..\<close> removes the last component (nothing at the root).
\<close>

type_synonym path = "string list"

definition render :: "path \<Rightarrow> string" where
  "render p = (if p = [] then ''/'' else concat (map (\<lambda>c. CHR ''/'' # c) p))"

fun norm :: "path \<Rightarrow> string list \<Rightarrow> path" where
  "norm acc [] = acc"
| "norm acc (s # ss) =
     (if s = [] \<or> s = ''.'' then norm acc ss
      else if s = ''..'' then norm (butlast acc) ss
      else norm (acc @ [s]) ss)"

definition path_resolve :: "path \<Rightarrow> string \<Rightarrow> path" where
  "path_resolve base s =
     (if take 1 s = ''/'' then norm [] (split_on CHR ''/'' s)
      else norm base (split_on CHR ''/'' s))"

definition path_join :: "path \<Rightarrow> string \<Rightarrow> path" where
  "path_join base s = norm base (split_on CHR ''/'' s)"

definition path_dirname :: "path \<Rightarrow> path" where
  "path_dirname p = butlast p"

text \<open>The length of \<^verbatim>\<open>p.split(path.sep)\<close> for an absolute path \<open>p\<close>.\<close>

definition split_len :: "path \<Rightarrow> nat" where
  "split_len p = (if p = [] then 2 else Suc (length p))"

section \<open>The file system and the external parser\<close>

datatype entry = File string | Dir

type_synonym fs = "path \<rightharpoonup> entry"

datatype error =
    EmptyInput
  | InvalidImportPath string
  | FsError
  | ParseError
  | UnresolvedRemapping
  | AmbiguousRemapping
  | UnresolvedImport path
  | InconsistentInheritance
  | TypeError

text \<open>\<^verbatim>\<open>fs.readdirSync(dir).includes(name)\<close>; reading a non-directory throws.\<close>

definition dir_has :: "fs \<Rightarrow> path \<Rightarrow> string \<Rightarrow> error + bool" where
  "dir_has fs d n =
     (case fs d of Some Dir \<Rightarrow> Inr (fs (d @ [n]) \<noteq> None) | _ \<Rightarrow> Inl FsError)"

section \<open>resolveImportPath\<close>

text \<open>
  The \<^verbatim>\<open>while (keepLooping)\<close> loop: \<open>n\<close> is
  \<^verbatim>\<open>currentDirArray.length\<close> (\<^verbatim>\<open>pop\<close> on an empty array leaves it empty),
  \<open>cur\<close> is \<^verbatim>\<open>currentDir\<close>. The result is the directory where the loop
  stopped, with \<^verbatim>\<open>forgeRemappingsBool\<close>.
\<close>

function findDepRoot :: "fs \<Rightarrow> path \<Rightarrow> nat \<Rightarrow> path \<Rightarrow> error + (path \<times> bool)" where
  "findDepRoot fs topDir n cur =
     (if split_len topDir > n then Inl UnresolvedRemapping
      else (case dir_has fs cur ''node_modules'' of
              Inl e \<Rightarrow> Inl e
            | Inr nodeModulesBool \<Rightarrow>
               (case dir_has fs cur ''remappings.txt'' of
                  Inl e \<Rightarrow> Inl e
                | Inr forgeRemappingsBool \<Rightarrow>
                    if forgeRemappingsBool \<or> nodeModulesBool
                    then Inr (cur, forgeRemappingsBool)
                    else findDepRoot fs topDir (n - 1) (butlast cur))))"
  by pat_completeness auto
termination
  by (relation "measure (\<lambda>(fs, topDir, n, cur). n)") (auto simp: split_len_def split: if_splits)

declare findDepRoot.simps [simp del]

text \<open>
  The scan of the manifest lines: the first line with more than one
  \<^verbatim>\<open>=\<close> throws, the first line whose prefix includes \<open>importBase\<close> ends the
  scan (\<^verbatim>\<open>break\<close>). A line without \<^verbatim>\<open>=\<close> has an undefined replacement,
  which \<^verbatim>\<open>replace\<close> turns into the text \<^verbatim>\<open>undefined\<close>.
\<close>

fun scanRemappings :: "string list \<Rightarrow> string \<Rightarrow> error + (string \<times> string)" where
  "scanRemappings [] importBase = Inr ([], [])"
| "scanRemappings (l # ls) importBase =
     (let remappingSplit = split_on CHR ''='' l in
      if length remappingSplit > 2 then Inl AmbiguousRemapping
      else if includes_str (hd remappingSplit) importBase
      then Inr (hd remappingSplit,
                if length remappingSplit > 1 then remappingSplit ! 1 else ''undefined'')
      else scanRemappings ls importBase)"

definition resolveImportPath :: "fs \<Rightarrow> path \<Rightarrow> string \<Rightarrow> path \<Rightarrow> error + path" where
  "resolveImportPath fs baseFilePath importedFilePath projectDir =
     (let baseDirPath = path_dirname baseFilePath;
          verify = (\<lambda>resolvedPath.
             case fs resolvedPath of
               Some (File c) \<Rightarrow> Inr resolvedPath
             | _ \<Rightarrow> Inl (UnresolvedImport resolvedPath))
      in
      if take 1 importedFilePath = ''.'' \<or> take 1 importedFilePath = ''/''
      then verify (path_resolve baseDirPath importedFilePath)
      else
        (case findDepRoot fs projectDir (split_len baseDirPath - 1) (butlast baseDirPath) of
           Inl e \<Rightarrow> Inl e
         | Inr (currentDir, forgeRemappingsBool) \<Rightarrow>
             if forgeRemappingsBool then
               (case fs (path_join currentDir ''remappings.txt'') of
                  Some (File remappingsFile) \<Rightarrow>
                    (case scanRemappings (split_lines remappingsFile)
                            (hd (split_on CHR ''/'' importedFilePath)) of
                       Inl e \<Rightarrow> Inl e
                     | Inr (forgeRemappingInput, forgeRemappingOutput) \<Rightarrow>
                         if forgeRemappingInput = []
                         then verify (path_join (path_join currentDir ''node_modules'')
                                        importedFilePath)
                         else verify (path_join currentDir
                                (replace_first importedFilePath forgeRemappingInput
                                   forgeRemappingOutput)))
                | _ \<Rightarrow> Inl FsError)
             else verify (path_join (path_join currentDir ''node_modules'')
                            importedFilePath)))"

section \<open>importProfiler\<close>

text \<open>
  The external parser is a parameter: \<open>importsOf content\<close> is the list of the paths of
  the import directives of a source text, in visiting order, or \<open>None\<close> when parsing
  throws. \<open>importedFiles\<close> is the shared \<^verbatim>\<open>Set\<close> (insertion order, no duplicates),
  \<open>diagnostics\<close> what was written with \<^verbatim>\<open>console.error\<close>.

  The recursion follows the import graph, which need not be finite here, so it
  carries fuel: \<open>None\<close> is "fuel exhausted", never a result of the program.
\<close>

record profile =
  importedFiles :: "path list"
  diagnostics :: "string list"

definition set_add :: "'a \<Rightarrow> 'a list \<Rightarrow> 'a list" where
  "set_add x xs = (if x \<in> set xs then xs else xs @ [x])"

text \<open>The \<^verbatim>\<open>ImportDirective\<close> handler, over the directives of one file.\<close>

fun collectNewFiles :: "fs \<Rightarrow> path \<Rightarrow> path \<Rightarrow> path list \<Rightarrow> string list \<Rightarrow> error + string list" where
  "collectNewFiles fs file projectDir imported [] = Inr []"
| "collectNewFiles fs file projectDir imported (p # ps) =
     (case resolveImportPath fs file p projectDir of
        Inl e \<Rightarrow> Inl e
      | Inr newFile \<Rightarrow>
          (case collectNewFiles fs file projectDir imported ps of
             Inl e \<Rightarrow> Inl e
           | Inr newFiles \<Rightarrow>
               Inr (if newFile \<in> set imported then newFiles else render newFile # newFiles)))"

fun importProfiler ::
  "nat \<Rightarrow> (string \<Rightarrow> string list option) \<Rightarrow> fs \<Rightarrow> path \<Rightarrow> string list \<Rightarrow> profile
     \<Rightarrow> (error + profile) option" where
  "importProfiler n importsOf fs projectDir [] st = Some (Inr st)"
| "importProfiler n importsOf fs projectDir (f # files) st =
     (let file = path_resolve projectDir f in
      if \<not> prefix (render projectDir) (render file) \<or> \<not> suffix ''.sol'' (render file)
      then Some (Inl (InvalidImportPath (render file)))
      else
        (case fs file of
           None \<Rightarrow> Some (Inl FsError)
         | Some Dir \<Rightarrow>
             Some (Inr (st\<lparr>diagnostics :=
                          diagnostics st @ [''Skipping directory: '' @ render file]\<rparr>))
         | Some (File content) \<Rightarrow>
             (let st1 = st\<lparr>importedFiles := set_add file (importedFiles st)\<rparr> in
              case importsOf content of
                None \<Rightarrow> Some (Inl ParseError)
              | Some paths \<Rightarrow>
                  (case collectNewFiles fs file projectDir (importedFiles st1) paths of
                     Inl e \<Rightarrow> Some (Inl e)
                   | Inr newFiles \<Rightarrow>
                       (case n of
                          0 \<Rightarrow> None
                        | Suc m \<Rightarrow>
                            (case importProfiler m importsOf fs projectDir newFiles st1 of
                               None \<Rightarrow> None
                             | Some (Inl e) \<Rightarrow> Some (Inl e)
                             | Some (Inr st2) \<Rightarrow>
                                 importProfiler n importsOf fs projectDir files st2))))))"

section \<open>Syntax trees\<close>

text \<open>
  The trees of the external parser, restricted to the node kinds and fields that
  \<^verbatim>\<open>src/graph.js\<close> reads. A JavaScript value that may be a string, \<^verbatim>\<open>null\<close> or
  \<^verbatim>\<open>undefined\<close> is a \<open>jsval\<close>; \<open>Native k\<close> is the value a plain object
  inherits under the key \<open>k\<close> from \<^verbatim>\<open>Object.prototype\<close> (a built-in function, or
  the prototype itself for \<^verbatim>\<open>__proto__\<close>). \<open>toStr\<close> is the conversion of a value in a
  template literal or as a property key.
\<close>

datatype jsval = Null | Undefined | Str string | Native string

fun toStr :: "jsval \<Rightarrow> string" where
  "toStr Null = ''null''"
| "toStr Undefined = ''undefined''"
| "toStr (Str s) = s"
| "toStr (Native k) =
     (if k = ''__proto__'' then ''[object Object]''
      else ''function '' @ (if k = ''constructor'' then ''Object'' else k)
             @ ''() { [native code] }'')"

text \<open>
  The tables of \<^verbatim>\<open>graph\<close> are plain objects. A map holds the own properties of
  one; \<open>lookup\<close> is \<^verbatim>\<open>table[k]\<close>, which falls back on the prototype;
  \<open>hasOwn\<close> is \<^verbatim>\<open>table.hasOwnProperty(k)\<close>, which throws when the table has got an
  own property of that name in place of the method; \<open>assign\<close> is
  \<^verbatim>\<open>table[k] = v\<close> for a value \<open>v\<close> that is not an object, which the setter of
  \<^verbatim>\<open>__proto__\<close> ignores.
\<close>

definition objectPrototypeKeys :: "string list" where
  "objectPrototypeKeys =
     [''constructor'', ''__defineGetter__'', ''__defineSetter__'', ''hasOwnProperty'',
      ''__lookupGetter__'', ''__lookupSetter__'', ''isPrototypeOf'', ''propertyIsEnumerable'',
      ''toString'', ''valueOf'', ''__proto__'', ''toLocaleString'']"

definition inherited :: "string \<Rightarrow> jsval" where
  "inherited k = (if k \<in> set objectPrototypeKeys then Native k else Undefined)"

definition lookup :: "(string \<rightharpoonup> jsval) \<Rightarrow> string \<Rightarrow> jsval" where
  "lookup m k = (case m k of None \<Rightarrow> inherited k | Some v \<Rightarrow> v)"

definition hasOwn :: "(string \<rightharpoonup> 'a) \<Rightarrow> string \<Rightarrow> error + bool" where
  "hasOwn m k = (if ''hasOwnProperty'' \<in> dom m then Inl TypeError else Inr (k \<in> dom m))"

definition andAlso :: "error + bool \<Rightarrow> error + bool \<Rightarrow> error + bool" where
  "andAlso a b = (case a of Inl e \<Rightarrow> Inl e | Inr x \<Rightarrow> if x then b else Inr False)"

definition assign :: "(string \<rightharpoonup> jsval) \<Rightarrow> string \<Rightarrow> jsval \<Rightarrow> (string \<rightharpoonup> jsval)" where
  "assign m k v = (if k = ''__proto__'' then m else m(k \<mapsto> v))"

datatype typeName =
    ElementaryTypeName string
  | UserDefinedTypeName string
  | ArrayTypeName typeName
  | Mapping typeName typeName
  | OtherTypeName

text \<open>\<^verbatim>\<open>typeName.name\<close> and \<^verbatim>\<open>typeName.namePath\<close>.\<close>

fun tn_name :: "typeName \<Rightarrow> jsval" where
  "tn_name (ElementaryTypeName n) = Str n"
| "tn_name _ = Undefined"

fun tn_namePath :: "typeName \<Rightarrow> jsval" where
  "tn_namePath (UserDefinedTypeName p) = Str p"
| "tn_namePath _ = Undefined"

datatype variable = Variable (vname: jsval) (vtype: typeName)

text \<open>
  Expressions; an argument of a call is kept with its \<^verbatim>\<open>range\<close>. \<open>expr_name\<close> is
  the \<^verbatim>\<open>name\<close> property.
\<close>

datatype expr =
    Identifier string
  | NumberLiteral string
  | MemberAccess expr string
  | FunctionCall expr "(expr \<times> nat \<times> nat) list"
  | ElementaryTypeNameExpression typeName
  | OtherExpr

fun expr_name :: "expr \<Rightarrow> string option" where
  "expr_name (Identifier n) = Some n"
| "expr_name _ = None"

text \<open>
  The descendants of a function or modifier definition for which the third
  traversal registers a handler, in visiting order (depth first, parents before
  children).
\<close>

datatype bodyNode =
    ParameterList "variable list"
  | VariableDeclaration variable
  | ModifierInvocation string
  | FunctionCallNode expr "(expr \<times> nat \<times> nat) list"

datatype funDef =
  FunDef (fname: jsval) (isConstructor: bool) (isFallback: bool) (isReceiveEther: bool)
         (fbody: "bodyNode list")

datatype member =
    StateVariableDeclaration "variable list"
  | FunctionDefinition funDef
  | ModifierDefinition string "bodyNode list"
  | CustomErrorDefinition string
  | EventDefinition string
  | StructDefinition string
  | UsingForDeclaration "typeName option" string

datatype item =
    ContractDefinition (cname: string) (kind: string) (baseContracts: "string list")
                       (subNodes: "member list")
  | FileLevel member

type_synonym sourceUnit = "item list"

text \<open>
  The shape tests of \<^verbatim>\<open>parserHelpers\<close> on declarations
  (\<^verbatim>\<open>isUserDefinedDeclaration\<close>, \<^verbatim>\<open>isElementaryTypeDeclaration\<close>,
  \<^verbatim>\<open>isArrayDeclaration\<close>, \<^verbatim>\<open>isMappingDeclaration\<close>) are the constructors of
  \<open>typeName\<close>. Its tests on call expressions are parameters of the model.
\<close>

record parserHelpers =
  isRegularFunctionCall ::
    "expr \<Rightarrow> string list \<Rightarrow> jsval list \<Rightarrow> jsval list \<Rightarrow> string list \<Rightarrow> bool"
  isMemberAccessOfAddress :: "expr \<Rightarrow> bool"
  isAContractTypecast :: "expr \<Rightarrow> string list \<Rightarrow> bool"
  isSpecialVariable :: "expr \<Rightarrow> bool"
  getSpecialVariableType :: "expr \<Rightarrow> jsval"
  isElementaryTypecast :: "expr \<Rightarrow> bool"

record options =
  contentsInFilePath :: bool
  importer :: bool
  libraries :: bool
  enableModifierEdges :: bool

section \<open>The graph builder\<close>

text \<open>
  Modelled from the spec: the graph builder is the external \<^verbatim>\<open>graphviz\<close> package,
  specified as an additive builder with "ensure cluster named X", "add node named Y
  to cluster", "add edge from A to B" and "get existing cluster/node by name". A graph
  is its clusters, each with the names of the nodes added to it, the nodes of the root
  graph and its edges; styling attributes are left out.

  \<^verbatim>\<open>graph.js\<close> adds nodes to clusters and asks the root graph for them. The spec
  does not say whether the lookup of the root graph finds a node that was added to a
  cluster, nor whether adding an edge makes its two ends nodes of the root graph; both
  are parameters of the model.
\<close>

datatype builder = Builder (clusterNodesVisible: bool) (edgesCreateNodes: bool)

record digraph =
  clusters :: "(string \<times> string list) list"
  rootNodes :: "string list"
  edges :: "(string \<times> string) list"

definition emptyGraph :: digraph where
  "emptyGraph = \<lparr>clusters = [], rootNodes = [], edges = []\<rparr>"

definition clusterId :: "string \<Rightarrow> string" where
  "clusterId contractName = [CHR 0x22] @ ''cluster'' @ contractName @ [CHR 0x22]"

definition getCluster :: "digraph \<Rightarrow> string \<Rightarrow> string list option" where
  "getCluster g cid = map_of (clusters g) cid"

definition addCluster :: "digraph \<Rightarrow> string \<Rightarrow> digraph" where
  "addCluster g cid = g\<lparr>clusters := AList.update cid [] (clusters g)\<rparr>"

definition addNode :: "digraph \<Rightarrow> string \<Rightarrow> string \<Rightarrow> digraph" where
  "addNode g cid n =
     g\<lparr>clusters := AList.update cid
          (set_add n (case map_of (clusters g) cid of None \<Rightarrow> [] | Some ns \<Rightarrow> ns))
          (clusters g)\<rparr>"

definition getNode :: "builder \<Rightarrow> digraph \<Rightarrow> string \<Rightarrow> bool" where
  "getNode lib g n =
     (n \<in> set (rootNodes g)
      \<or> (clusterNodesVisible lib \<and> (\<exists>c \<in> set (clusters g). n \<in> set (snd c))))"

definition addEdge :: "builder \<Rightarrow> digraph \<Rightarrow> string \<Rightarrow> string \<Rightarrow> digraph" where
  "addEdge lib g a b =
     g\<lparr>edges := edges g @ [(a, b)],
       rootNodes := (if edgesCreateNodes lib then set_add b (set_add a (rootNodes g))
                     else rootNodes g)\<rparr>"

text \<open>The clusters a node name has been added to.\<close>

definition clustersOf :: "digraph \<Rightarrow> string \<Rightarrow> string list" where
  "clustersOf g n = map fst (filter (\<lambda>c. n \<in> set (snd c)) (clusters g))"

section \<open>First traversal: the declaration tables\<close>

text \<open>
  The variables of \<^verbatim>\<open>graph\<close> that persist over the file loops. An object used as
  a dictionary is a map; \<^verbatim>\<open>dependencies\<close> keeps its keys in insertion order. The
  \<^verbatim>\<open>Set\<close>s of \<^verbatim>\<open>contractUsingFor\<close> are lists in insertion order.
\<close>

record tables =
  graph :: digraph
  userDefinedStateVars :: "string \<rightharpoonup> (string \<rightharpoonup> jsval)"
  stateVars :: "string \<rightharpoonup> (string \<rightharpoonup> jsval)"
  dependencies :: "(string \<times> string list) list"
  functionsPerContract :: "string \<rightharpoonup> jsval list"
  eventsPerContract :: "string \<rightharpoonup> string list"
  structsPerContract :: "string \<rightharpoonup> string list"
  contractUsingFor :: "string \<rightharpoonup> (string \<rightharpoonup> string list)"
  contractNames :: "string list"
  customErrorNames :: "string list"

definition initTables :: tables where
  "initTables =
     \<lparr>graph = emptyGraph, userDefinedStateVars = Map.empty, stateVars = Map.empty,
      dependencies = [], functionsPerContract = [''0_global'' \<mapsto> []],
      eventsPerContract = [''0_global'' \<mapsto> []], structsPerContract = [''0_global'' \<mapsto> []],
      contractUsingFor = Map.empty, contractNames = [''0_global''], customErrorNames = []\<rparr>"

text \<open>
  \<^verbatim>\<open>table[c][k] = v\<close> and \<^verbatim>\<open>table[c].push(x)\<close>. The entry of \<open>c\<close> exists whenever
  the source runs them: it is created on entering the file (for \<^verbatim>\<open>0_global\<close>) or
  the contract.
\<close>

definition put2 :: "('a \<rightharpoonup> ('b \<rightharpoonup> 'c)) \<Rightarrow> 'a \<Rightarrow> 'b \<Rightarrow> 'c \<Rightarrow> ('a \<rightharpoonup> ('b \<rightharpoonup> 'c))" where
  "put2 t c k v = t(c \<mapsto> (case t c of None \<Rightarrow> Map.empty | Some m \<Rightarrow> m)(k \<mapsto> v))"

definition push :: "('a \<rightharpoonup> 'b list) \<Rightarrow> 'a \<Rightarrow> 'b \<Rightarrow> ('a \<rightharpoonup> 'b list)" where
  "push t c x = t(c \<mapsto> (case t c of None \<Rightarrow> [] | Some xs \<Rightarrow> xs) @ [x])"

definition put2v ::
  "(string \<rightharpoonup> (string \<rightharpoonup> jsval)) \<Rightarrow> string \<Rightarrow> string \<Rightarrow> jsval
     \<Rightarrow> (string \<rightharpoonup> (string \<rightharpoonup> jsval))" where
  "put2v t c k v = t(c \<mapsto> assign (case t c of None \<Rightarrow> Map.empty | Some m \<Rightarrow> m) k v)"

fun declareStateVar :: "string \<Rightarrow> tables \<Rightarrow> variable \<Rightarrow> tables" where
  "declareStateVar contractName T (Variable n (UserDefinedTypeName p)) =
     T\<lparr>userDefinedStateVars := put2v (userDefinedStateVars T) contractName (toStr n) (Str p)\<rparr>"
| "declareStateVar contractName T (Variable n (ElementaryTypeName e)) =
     T\<lparr>stateVars := put2v (stateVars T) contractName (toStr n) (Str e)\<rparr>"
| "declareStateVar contractName T (Variable n (ArrayTypeName b)) =
     T\<lparr>stateVars := put2v (stateVars T) contractName (toStr n) (tn_namePath b)\<rparr>"
| "declareStateVar contractName T (Variable n (Mapping k v)) =
     T\<lparr>stateVars := put2v (stateVars T) contractName (toStr n) (tn_name v)\<rparr>"
| "declareStateVar contractName T (Variable n OtherTypeName) = T"

fun usingForKey :: "typeName option \<Rightarrow> string" where
  "usingForKey (Some (ElementaryTypeName n)) = n"
| "usingForKey (Some (UserDefinedTypeName p)) = p"
| "usingForKey _ = ''*''"

fun collectMember :: "string \<Rightarrow> tables \<Rightarrow> member \<Rightarrow> tables" where
  "collectMember contractName T (StateVariableDeclaration vs) =
     foldl (declareStateVar contractName) T vs"
| "collectMember contractName T (FunctionDefinition fd) =
     T\<lparr>functionsPerContract := push (functionsPerContract T) contractName (fname fd)\<rparr>"
| "collectMember contractName T (ModifierDefinition n b) = T"
| "collectMember contractName T (CustomErrorDefinition n) =
     T\<lparr>functionsPerContract := push (functionsPerContract T) contractName (Str n),
       customErrorNames := customErrorNames T @ [n]\<rparr>"
| "collectMember contractName T (EventDefinition n) =
     T\<lparr>eventsPerContract := push (eventsPerContract T) contractName n\<rparr>"
| "collectMember contractName T (StructDefinition n) =
     T\<lparr>structsPerContract := push (structsPerContract T) contractName n\<rparr>"
| "collectMember contractName T (UsingForDeclaration ty libraryName) =
     T\<lparr>contractUsingFor := put2 (contractUsingFor T) contractName (usingForKey ty)
         (set_add libraryName
            (case contractUsingFor T contractName of
               None \<Rightarrow> []
             | Some m \<Rightarrow> (case m (usingForKey ty) of None \<Rightarrow> [] | Some l \<Rightarrow> l)))\<rparr>"

definition resetContract :: "string \<Rightarrow> tables \<Rightarrow> tables" where
  "resetContract contractName T =
     T\<lparr>userDefinedStateVars := (userDefinedStateVars T)(contractName \<mapsto> Map.empty),
       stateVars := (stateVars T)(contractName \<mapsto> Map.empty),
       functionsPerContract := (functionsPerContract T)(contractName \<mapsto> []),
       eventsPerContract := (eventsPerContract T)(contractName \<mapsto> []),
       structsPerContract := (structsPerContract T)(contractName \<mapsto> []),
       contractUsingFor := (contractUsingFor T)(contractName \<mapsto> Map.empty)\<rparr>"

text \<open>The \<^verbatim>\<open>ContractDefinition\<close> handler of the first traversal.\<close>

definition enterContract :: "tables \<Rightarrow> string \<Rightarrow> string list \<Rightarrow> tables" where
  "enterContract T contractName bases =
     (let T1 = resetContract contractName (T\<lparr>contractNames := contractNames T @ [contractName]\<rparr>);
          T2 = (if getCluster (graph T1) (clusterId contractName) = None
                then T1\<lparr>graph := addCluster (graph T1) (clusterId contractName)\<rparr>
                else T1)
      in T2\<lparr>dependencies :=
              AList.update contractName (''0_global'' # bases) (dependencies T2)\<rparr>)"

fun collectItem :: "tables \<Rightarrow> item \<Rightarrow> tables" where
  "collectItem T (ContractDefinition contractName k bases ms) =
     foldl (collectMember contractName) (enterContract T contractName bases) ms"
| "collectItem T (FileLevel m) = collectMember ''0_global'' T m"

definition collectFile :: "tables \<Rightarrow> sourceUnit \<Rightarrow> tables" where
  "collectFile T ast = foldl collectItem (resetContract ''0_global'' T) ast"

section \<open>Linearization\<close>

text \<open>
  Modelled from the spec: \<^verbatim>\<open>linearize\<close> is the external
  \<^verbatim>\<open>c3-linearization\<close> package, called with \<^verbatim>\<open>{reverse: true}\<close>. Following the
  spec (Inheritance Linearizer), the order of a contract is the contract followed by
  the merge of the linearizations of its bases together with its base list itself,
  the base list taken in reverse so that the contract comes first and
  \<^verbatim>\<open>0_global\<close> last; each step of the merge selects the first candidate head that
  does not occur in the tail of any other list being merged, and the merge fails when
  there is none. A name with no base list has itself as its order.
\<close>

fun firstHead :: "'a list list \<Rightarrow> 'a list list \<Rightarrow> 'a option" where
  "firstHead seen [] = None"
| "firstHead seen (s # rest) =
     (if \<forall>t \<in> set (seen @ rest). hd s \<notin> set (tl t) then Some (hd s)
      else firstHead (seen @ [s]) rest)"

lemma firstHead_mem:
  "firstHead seen ss = Some h \<Longrightarrow> \<exists>s \<in> set ss. h = hd s"
  by (induction seen ss rule: firstHead.induct) (auto split: if_splits)

lemma remove1_sum_less:
  "s \<in> set ss \<Longrightarrow> h \<in> set s
   \<Longrightarrow> sum_list (map (\<lambda>s. length (remove1 h s)) ss) < sum_list (map length ss)"
proof (induction ss)
  case Nil
  then show ?case by simp
next
  case (Cons a ss)
  have le: "sum_list (map (\<lambda>s. length (remove1 h s)) ts) \<le> sum_list (map length ts)" for ts :: "'a list list"
    by (induction ts) (auto simp: length_remove1 intro: add_mono)
  show ?case
  proof (cases "s = a")
    case True
    with Cons.prems have "length (remove1 h a) < length a"
      by (auto simp: length_remove1 dest: length_pos_if_in_set)
    with le [of ss] show ?thesis by simp
  next
    case False
    with Cons have "sum_list (map (\<lambda>s. length (remove1 h s)) ss) < sum_list (map length ss)"
      by simp
    moreover have "length (remove1 h a) \<le> length a"
      by (simp add: length_remove1)
    ultimately show ?thesis by simp
  qed
qed

function merge :: "'a list list \<Rightarrow> 'a list option" where
  "merge seqs =
     (let live = filter (\<lambda>s. s \<noteq> []) seqs in
      if live = [] then Some []
      else (case firstHead [] live of
              None \<Rightarrow> None
            | Some h \<Rightarrow> map_option (Cons h) (merge (map (remove1 h) live))))"
  by pat_completeness auto
termination
proof (relation "measure (\<lambda>seqs. sum_list (map length seqs))", goal_cases)
  case 1
  then show ?case by simp
next
  case (2 seqs live h)
  from firstHead_mem [OF 2(3)] obtain s where s: "s \<in> set live" "h = hd s"
    by blast
  with 2(1) have "h \<in> set s"
    by (cases s) auto
  from remove1_sum_less [OF s(1) this]
  have "sum_list (map (\<lambda>s. length (remove1 h s)) live) < sum_list (map length live)" .
  moreover have "sum_list (map length live) \<le> sum_list (map length seqs)"
    unfolding 2(1) by (induction seqs) auto
  ultimately show ?case by (simp add: comp_def)
qed

declare merge.simps [simp del]

fun lin :: "(string \<times> string list) list \<Rightarrow> nat \<Rightarrow> string \<Rightarrow> string list option" where
  "lin deps 0 c = None"
| "lin deps (Suc n) c =
     (case map_of deps c of
        None \<Rightarrow> Some [c]
      | Some bases \<Rightarrow>
          (case those (map (lin deps n) (rev bases)) of
             None \<Rightarrow> None
           | Some seqs \<Rightarrow> map_option (Cons c) (merge (seqs @ [rev bases]))))"

text \<open>
  A chain of bases longer than the number of contracts repeats a contract, so the
  fuel \<open>Suc (length deps)\<close> runs out only on a cyclic hierarchy, which fails like
  an inconsistent one.
\<close>

definition linearize :: "(string \<times> string list) list \<Rightarrow> (string \<times> string list) list option" where
  "linearize deps =
     map_option (zip (map fst deps))
       (those (map (lin deps (Suc (length deps))) (map fst deps)))"

section \<open>Second traversal: node registration\<close>

fun foldE :: "('s \<Rightarrow> 'a \<Rightarrow> error + 's) \<Rightarrow> 's \<Rightarrow> 'a list \<Rightarrow> error + 's" where
  "foldE f st [] = Inr st"
| "foldE f st (x # xs) = (case f st x of Inl e \<Rightarrow> Inl e | Inr st1 \<Rightarrow> foldE f st1 xs)"

definition qualifiedName :: "string \<Rightarrow> string \<Rightarrow> string" where
  "qualifiedName contractName functionName = contractName @ ''.'' @ functionName"

text \<open>
  \<^verbatim>\<open>dependencies\<close> is from here on the result of the linearizer, read as a map from
  contract names to orders: \<^verbatim>\<open>dependencies.hasOwnProperty(c)\<close> is membership in its
  domain. \<open>nodeName\<close> returns the first name along the order of the contract that
  the root graph knows as a node.
\<close>

definition nodeName :: "builder \<Rightarrow> (string \<rightharpoonup> string list) \<Rightarrow> digraph \<Rightarrow> string \<Rightarrow> string \<Rightarrow> string" where
  "nodeName lib deps g functionName contractName =
     (if functionName \<noteq> ''<Fallback>'' \<and> functionName \<noteq> ''<Receive Ether>''
         \<and> functionName \<noteq> ''<Constructor>''
      then (case deps contractName of
              None \<Rightarrow> qualifiedName contractName functionName
            | Some ds \<Rightarrow>
                (case find (\<lambda>dep. getNode lib g (qualifiedName dep functionName)) ds of
                   Some dep \<Rightarrow> qualifiedName dep functionName
                 | None \<Rightarrow> qualifiedName contractName functionName))
      else qualifiedName contractName functionName)"

definition functionName :: "funDef \<Rightarrow> string" where
  "functionName node =
     (if isConstructor node then ''<Constructor>''
      else if isFallback node then ''<Fallback>''
      else if isReceiveEther node then ''<Receive Ether>''
      else toStr (fname node))"

text \<open>
  The state of the second traversal is the graph and the variable \<^verbatim>\<open>cluster\<close>
  (the id of a cluster, or \<open>None\<close> for \<^verbatim>\<open>null\<close>). The handler of a modifier
  definition dereferences \<^verbatim>\<open>cluster\<close> unguarded.
\<close>

fun registerMember ::
  "builder \<Rightarrow> (string \<rightharpoonup> string list) \<Rightarrow> string \<Rightarrow> digraph \<times> string option \<Rightarrow> member
     \<Rightarrow> error + digraph \<times> string option" where
  "registerMember lib deps contractName (g, cluster) (FunctionDefinition node) =
     (case cluster of
        None \<Rightarrow> Inr (g, cluster)
      | Some cid \<Rightarrow>
          Inr (addNode g cid (nodeName lib deps g (functionName node) contractName), cluster))"
| "registerMember lib deps contractName (g, cluster) (ModifierDefinition n b) =
     (case cluster of
        None \<Rightarrow> Inl TypeError
      | Some cid \<Rightarrow> Inr (addNode g cid (nodeName lib deps g n contractName), cluster))"
| "registerMember lib deps contractName (g, cluster) m = Inr (g, cluster)"

fun registerItem ::
  "builder \<Rightarrow> (string \<rightharpoonup> string list) \<Rightarrow> digraph \<times> string option \<Rightarrow> item
     \<Rightarrow> error + digraph \<times> string option" where
  "registerItem lib deps (g, cluster) (ContractDefinition contractName k bases ms) =
     foldE (registerMember lib deps contractName)
       (g, if getCluster g (clusterId contractName) = None then None
           else Some (clusterId contractName)) ms"
| "registerItem lib deps (g, cluster) (FileLevel m) =
     registerMember lib deps ''0_global'' (g, cluster) m"

definition registerNodes ::
  "builder \<Rightarrow> (string \<rightharpoonup> string list) \<Rightarrow> digraph \<Rightarrow> sourceUnit \<Rightarrow> error + digraph" where
  "registerNodes lib deps g ast =
     (case foldE (registerItem lib deps) (g, None) ast of
        Inl e \<Rightarrow> Inl e
      | Inr (g1, cluster) \<Rightarrow> Inr g1)"

section \<open>Third traversal: call resolution\<close>

record resolver =
  rgraph :: digraph
  callingScope :: "string option"
  userDefinedLocalVars :: "string \<rightharpoonup> jsval"
  localVars :: "string \<rightharpoonup> jsval"
  tempUserDefinedStateVars :: "string \<rightharpoonup> jsval"
  tempStateVars :: "string \<rightharpoonup> jsval"
  eventDefinitions :: "string list"

definition initResolver :: "digraph \<Rightarrow> resolver" where
  "initResolver g =
     \<lparr>rgraph = g, callingScope = None, userDefinedLocalVars = Map.empty,
      localVars = Map.empty, tempUserDefinedStateVars = Map.empty,
      tempStateVars = Map.empty, eventDefinitions = []\<rparr>"

text \<open>The \<^verbatim>\<open>ParameterList\<close> handler; a parameter without a name ends it.\<close>

fun parameterList :: "resolver \<Rightarrow> variable list \<Rightarrow> resolver" where
  "parameterList st [] = st"
| "parameterList st (Variable n ty # ps) =
     (if n = Null then st
      else (case ty of
              UserDefinedTypeName p \<Rightarrow>
                parameterList
                  (st\<lparr>userDefinedLocalVars := assign (userDefinedLocalVars st) (toStr n) (Str p)\<rparr>) ps
            | _ \<Rightarrow>
                if callingScope st \<noteq> None
                then parameterList (st\<lparr>localVars := assign (localVars st) (toStr n) (tn_name ty)\<rparr>) ps
                else parameterList st ps))"

fun variableDeclaration :: "resolver \<Rightarrow> variable \<Rightarrow> resolver" where
  "variableDeclaration st (Variable n ty) =
     (if callingScope st = None \<or> n = Null then st
      else (case ty of
              UserDefinedTypeName p \<Rightarrow>
                st\<lparr>userDefinedLocalVars := assign (userDefinedLocalVars st) (toStr n) (Str p)\<rparr>
            | ElementaryTypeName e \<Rightarrow>
                st\<lparr>localVars := assign (localVars st) (toStr n) (Str e)\<rparr>
            | ArrayTypeName b \<Rightarrow>
                st\<lparr>localVars := assign (localVars st) (toStr n) (tn_namePath b)\<rparr>
            | Mapping k v \<Rightarrow>
                st\<lparr>localVars := assign (localVars st) (toStr n) (tn_name v)\<rparr>
            | OtherTypeName \<Rightarrow> st))"

text \<open>
  \<^verbatim>\<open>content.substring(lo, hi + 1).replace(/"/g, "")\<close>, for \<open>lo \<le> hi + 1\<close> as the
  ranges of the parser are.
\<close>

definition sourceText :: "string \<Rightarrow> nat \<times> nat \<Rightarrow> string" where
  "sourceText content r =
     filter (\<lambda>c. c \<noteq> CHR 0x22) (take (Suc (snd r) - fst r) (drop (fst r) content))"

text \<open>\<^verbatim>\<open>node.expression\<close> of an expression node that has one.\<close>

fun expr_expression :: "expr \<Rightarrow> expr option" where
  "expr_expression (FunctionCall c as) = Some c"
| "expr_expression (MemberAccess e m) = Some e"
| "expr_expression _ = None"

definition optName :: "string option \<Rightarrow> jsval" where
  "optName n = (case n of None \<Rightarrow> Undefined | Some s \<Rightarrow> Str s)"

text \<open>
  Lines 412 to 441: the object of a member call and, for a low-level call on an
  address, the synthesized name. \<open>node\<close> is the call, \<open>e\<close> the object expression,
  \<open>m\<close> the member name.
\<close>

definition resolveObject ::
  "parserHelpers \<Rightarrow> string list \<Rightarrow> string \<Rightarrow> expr \<Rightarrow> expr \<Rightarrow> string
     \<Rightarrow> (expr \<times> nat \<times> nat) list \<Rightarrow> error + jsval \<times> jsval" where
  "resolveObject ph names content node e m args =
     (case expr_name e of
        Some n \<Rightarrow> Inr (Str n, Str m)
      | None \<Rightarrow>
          if isMemberAccessOfAddress ph node then
            (let name = (if m = ''call''
                         then (case args of
                                 [] \<Rightarrow> Str ''<Fallback>''
                               | a # as \<Rightarrow> Str (sourceText content (snd a)))
                         else Str m)
             in case e of
                  FunctionCall c (a0 # as0) \<Rightarrow>
                    (case fst a0 of
                       Identifier n \<Rightarrow> Inr (Str n, name)
                     | NumberLiteral num \<Rightarrow> Inr (Str (''address('' @ num @ '')''), name)
                     | _ \<Rightarrow> Inr (Str (sourceText content (snd a0)), name))
                | _ \<Rightarrow> Inl TypeError)
          else if isAContractTypecast ph node names then
            (case expr_expression e of
               None \<Rightarrow> Inl TypeError
             | Some c \<Rightarrow> Inr (optName (expr_name c), Str m))
          else Inr (Null, Str m))"

text \<open>Lines 443 to 467: the declared type of the object, canonicalised.\<close>

definition resolveVariableType ::
  "parserHelpers \<Rightarrow> resolver \<Rightarrow> expr \<Rightarrow> jsval \<Rightarrow> error + jsval" where
  "resolveVariableType ph st e object =
     (let canonical = (\<lambda>t. if t = Str ''uint'' then Str ''uint256'' else t);
          k = toStr object
      in
      if isSpecialVariable ph e then Inr (canonical (getSpecialVariableType ph e))
      else if isElementaryTypecast ph e then
        (case expr_expression e of
           Some (ElementaryTypeNameExpression ty) \<Rightarrow> Inr (canonical (tn_name ty))
         | _ \<Rightarrow> Inl TypeError)
      else
        (case hasOwn (localVars st) k of
           Inl err \<Rightarrow> Inl err
         | Inr True \<Rightarrow> Inr (canonical (lookup (localVars st) k))
         | Inr False \<Rightarrow>
        (case hasOwn (userDefinedLocalVars st) k of
           Inl err \<Rightarrow> Inl err
         | Inr True \<Rightarrow> Inr (canonical (lookup (userDefinedLocalVars st) k))
         | Inr False \<Rightarrow>
        (case hasOwn (tempUserDefinedStateVars st) k of
           Inl err \<Rightarrow> Inl err
         | Inr True \<Rightarrow> Inr (canonical (lookup (tempUserDefinedStateVars st) k))
         | Inr False \<Rightarrow>
        (case hasOwn (tempStateVars st) k of
           Inl err \<Rightarrow> Inl err
         | Inr True \<Rightarrow> Inr (canonical (lookup (tempStateVars st) k))
         | Inr False \<Rightarrow> Inr Null)))))"

text \<open>
  Lines 470 to 509: library dispatch. \<^verbatim>\<open>functionsPerContract.hasOwnProperty\<close> is
  applied to a \<^verbatim>\<open>Set\<close>, whose property key is the text \<^verbatim>\<open>[object Set]\<close>;
  \<^verbatim>\<open>new Set(...libs)\<close> passes the libraries as separate arguments, of which the
  constructor reads the first, a string, as the collection of its characters.
  The result \<open>None\<close> is the handler's \<^verbatim>\<open>return\<close>.
\<close>

definition setKey :: string where
  "setKey = ''[object Set]''"

definition uniq :: "'a list \<Rightarrow> 'a list" where
  "uniq xs = foldl (\<lambda>acc x. set_add x acc) [] xs"

definition spreadIntoSet :: "string list \<Rightarrow> string list" where
  "spreadIntoSet libs = (case libs of [] \<Rightarrow> [] | l # ls \<Rightarrow> uniq (map (\<lambda>c. [c]) l))"

text \<open>
  The test of the three filters,
  \<^verbatim>\<open>functionsPerContract[contract] != undefined ? functionsPerContract[contract].includes(name) : false\<close>:
  for a name without a list of its own that \<^verbatim>\<open>Object.prototype\<close> has, the value
  read is not \<^verbatim>\<open>undefined\<close> and has no \<^verbatim>\<open>includes\<close>, and the call throws.
\<close>

definition declares :: "tables \<Rightarrow> jsval \<Rightarrow> string \<Rightarrow> error + bool" where
  "declares T name contract =
     (case functionsPerContract T contract of
        Some fs \<Rightarrow> Inr (name \<in> set fs)
      | None \<Rightarrow> if contract \<in> set objectPrototypeKeys then Inl TypeError else Inr False)"

fun filterE :: "('a \<Rightarrow> error + bool) \<Rightarrow> 'a list \<Rightarrow> error + 'a list" where
  "filterE p [] = Inr []"
| "filterE p (x # xs) =
     (case p x of
        Inl e \<Rightarrow> Inl e
      | Inr keep \<Rightarrow>
          (case filterE p xs of
             Inl e \<Rightarrow> Inl e
           | Inr ys \<Rightarrow> Inr (if keep then x # ys else ys)))"

definition getSet :: "(string \<rightharpoonup> string list) \<Rightarrow> string \<Rightarrow> string list" where
  "getSet m k = (case m k of None \<Rightarrow> [] | Some l \<Rightarrow> l)"

definition usingFor ::
  "options \<Rightarrow> tables \<Rightarrow> string \<Rightarrow> jsval \<Rightarrow> jsval \<Rightarrow> jsval \<Rightarrow> error + jsval option" where
  "usingFor opts T contractName variableType name object =
     (case contractUsingFor T contractName of
        None \<Rightarrow> Inl TypeError
      | Some cuf \<Rightarrow>
          (let dispatch = (\<lambda>contractUsingForDefinitions.
                 case filterE (declares T name) contractUsingForDefinitions of
                   Inl err \<Rightarrow> Inl err
                 | Inr matchingContracts \<Rightarrow>
                     if matchingContracts \<noteq> []
                     then (if \<not> libraries opts then Inr (Some (Str (hd matchingContracts)))
                           else Inr None)
                     else Inr (Some object));
               wildcard = andAlso (hasOwn cuf ''*'') (hasOwn (functionsPerContract T) setKey)
           in
           if variableType \<noteq> Null then
             (case andAlso (hasOwn cuf (toStr variableType))
                     (hasOwn (functionsPerContract T) setKey) of
                Inl err \<Rightarrow> Inl err
              | Inr False \<Rightarrow> Inr (Some object)
              | Inr True \<Rightarrow>
                  (case wildcard of
                     Inl err \<Rightarrow> Inl err
                   | Inr True \<Rightarrow>
                       dispatch (spreadIntoSet (getSet cuf (toStr variableType) @ getSet cuf ''*''))
                   | Inr False \<Rightarrow> dispatch (spreadIntoSet (getSet cuf (toStr variableType)))))
           else
             (case wildcard of
                Inl err \<Rightarrow> Inl err
              | Inr True \<Rightarrow> dispatch (getSet cuf ''*'')
              | Inr False \<Rightarrow> Inr (Some object))))"

text \<open>Lines 513 to 531: the contract of the callee; \<open>None\<close> is \<^verbatim>\<open>return\<close>.\<close>

definition targetContract ::
  "tables \<Rightarrow> (string \<rightharpoonup> string list) \<Rightarrow> resolver \<Rightarrow> string \<Rightarrow> jsval \<Rightarrow> jsval
     \<Rightarrow> error + string option" where
  "targetContract T deps st contractName object name =
     (if object = Null then Inr None
      else if object = Str ''this'' then Inr (Some contractName)
      else if object = Str ''super'' then
        (case deps contractName of
           None \<Rightarrow> Inl TypeError
         | Some ds \<Rightarrow>
             (case filterE (declares T name) ds of
                Inl err \<Rightarrow> Inl err
              | Inr matchingContracts \<Rightarrow>
                  if matchingContracts \<noteq> [] then Inr (Some (hd matchingContracts))
                  else Inr None))
      else if lookup (tempUserDefinedStateVars st) (toStr object) \<noteq> Undefined
        then Inr (Some (toStr (lookup (tempUserDefinedStateVars st) (toStr object))))
      else if lookup (userDefinedLocalVars st) (toStr object) \<noteq> Undefined
        then Inr (Some (toStr (lookup (userDefinedLocalVars st) (toStr object))))
      else Inr (Some (toStr object)))"

text \<open>Lines 537 to 578: the cluster and node of the callee, and the edge.\<close>

definition ensureCluster :: "digraph \<Rightarrow> string \<Rightarrow> digraph" where
  "ensureCluster g localContractName =
     (if getCluster g (clusterId localContractName) = None
      then addCluster g (clusterId localContractName)
      else g)"

definition emitCall ::
  "builder \<Rightarrow> (string \<rightharpoonup> string list) \<Rightarrow> resolver \<Rightarrow> string \<Rightarrow> jsval \<Rightarrow> string \<Rightarrow> resolver" where
  "emitCall lib deps st scope name localContractName =
     (let g1 = ensureCluster (rgraph st) localContractName;
          localNodeName = nodeName lib deps g1 (toStr name) localContractName;
          g2 = (if \<not> getNode lib g1 localNodeName
                then addNode g1 (clusterId localContractName) localNodeName
                else g1)
      in st\<lparr>rgraph := addEdge lib g2 scope localNodeName\<rparr>)"

text \<open>
  The event and struct names of the whole linearization of the current contract. A
  contract without a linearization contributes none; a dependency without a table
  contributes what the prototype has under its name, mostly \<^verbatim>\<open>undefined\<close>.
\<close>

definition namesOfDependencies ::
  "(string \<rightharpoonup> string list) \<Rightarrow> (string \<rightharpoonup> string list) \<Rightarrow> string \<Rightarrow> jsval list" where
  "namesOfDependencies table deps contractName =
     concat (map (\<lambda>dep. case table dep of None \<Rightarrow> [inherited dep] | Some l \<Rightarrow> map Str l)
               (case deps contractName of None \<Rightarrow> [] | Some l \<Rightarrow> l))"

text \<open>
  The \<^verbatim>\<open>FunctionCall\<close> handler. \<^verbatim>\<open>isMemberAccess\<close> is the shape test "the callee
  is a member access".
\<close>

definition functionCall ::
  "builder \<Rightarrow> parserHelpers \<Rightarrow> options \<Rightarrow> tables \<Rightarrow> (string \<rightharpoonup> string list) \<Rightarrow> string \<Rightarrow> string
     \<Rightarrow> resolver \<Rightarrow> expr \<Rightarrow> (expr \<times> nat \<times> nat) list \<Rightarrow> error + resolver" where
  "functionCall lib ph opts T deps content contractName st callee args =
     (case callingScope st of
        None \<Rightarrow> Inr st
      | Some scope \<Rightarrow>
          (let node = FunctionCall callee args;
               eventsOfDependencies = namesOfDependencies (eventsPerContract T) deps contractName;
               structsOfDependencies = namesOfDependencies (structsPerContract T) deps contractName
           in
           if isRegularFunctionCall ph node (contractNames T) eventsOfDependencies
                structsOfDependencies (customErrorNames T)
           then Inr (emitCall lib deps st scope (optName (expr_name callee)) contractName)
           else if (case expr_name callee of
                      None \<Rightarrow> False
                    | Some n \<Rightarrow> n \<in> set (customErrorNames T))
           then Inr (emitCall lib deps st scope (optName (expr_name callee)) contractName)
           else
             (case callee of
                MemberAccess e m \<Rightarrow>
                  (case resolveObject ph (contractNames T) content node e m args of
                     Inl err \<Rightarrow> Inl err
                   | Inr (object, name) \<Rightarrow>
                       (case resolveVariableType ph st e object of
                          Inl err \<Rightarrow> Inl err
                        | Inr variableType \<Rightarrow>
                            (case usingFor opts T contractName variableType name object of
                               Inl err \<Rightarrow> Inl err
                             | Inr None \<Rightarrow> Inr st
                             | Inr (Some object1) \<Rightarrow>
                                 (case targetContract T deps st contractName object1 name of
                                    Inl err \<Rightarrow> Inl err
                                  | Inr None \<Rightarrow> Inr st
                                  | Inr (Some localContractName) \<Rightarrow>
                                      Inr (emitCall lib deps st scope name localContractName)))))
              | _ \<Rightarrow> Inr st)))"

fun visitBodyNode ::
  "builder \<Rightarrow> parserHelpers \<Rightarrow> options \<Rightarrow> tables \<Rightarrow> (string \<rightharpoonup> string list) \<Rightarrow> string \<Rightarrow> string
     \<Rightarrow> resolver \<Rightarrow> bodyNode \<Rightarrow> error + resolver" where
  "visitBodyNode lib ph opts T deps content contractName st (ParameterList ps) =
     Inr (parameterList st ps)"
| "visitBodyNode lib ph opts T deps content contractName st (VariableDeclaration v) =
     Inr (variableDeclaration st v)"
| "visitBodyNode lib ph opts T deps content contractName st (ModifierInvocation n) =
     (case callingScope st of
        None \<Rightarrow> Inr st
      | Some scope \<Rightarrow>
          if enableModifierEdges opts
          then Inr (st\<lparr>rgraph := addEdge lib (rgraph st) scope
                                   (nodeName lib deps (rgraph st) n contractName)\<rparr>)
          else Inr st)"
| "visitBodyNode lib ph opts T deps content contractName st (FunctionCallNode callee args) =
     functionCall lib ph opts T deps content contractName st callee args"

text \<open>
  A definition with its enter hook, its descendants and its exit hook. The exit hook
  of a function clears the scope and both local tables; the exit hook of a modifier
  clears the scope.
\<close>

fun resolveMember ::
  "builder \<Rightarrow> parserHelpers \<Rightarrow> options \<Rightarrow> tables \<Rightarrow> (string \<rightharpoonup> string list) \<Rightarrow> string \<Rightarrow> string
     \<Rightarrow> resolver \<Rightarrow> member \<Rightarrow> error + resolver" where
  "resolveMember lib ph opts T deps content contractName st (FunctionDefinition node) =
     (case foldE (visitBodyNode lib ph opts T deps content contractName)
             (st\<lparr>callingScope :=
                   Some (nodeName lib deps (rgraph st) (functionName node) contractName)\<rparr>)
             (fbody node) of
        Inl e \<Rightarrow> Inl e
      | Inr st1 \<Rightarrow>
          Inr (st1\<lparr>callingScope := None, userDefinedLocalVars := Map.empty,
                    localVars := Map.empty\<rparr>))"
| "resolveMember lib ph opts T deps content contractName st (ModifierDefinition n body) =
     (case foldE (visitBodyNode lib ph opts T deps content contractName)
             (st\<lparr>callingScope := Some (nodeName lib deps (rgraph st) n contractName)\<rparr>) body of
        Inl e \<Rightarrow> Inl e
      | Inr st1 \<Rightarrow> Inr (st1\<lparr>callingScope := None\<rparr>))"
| "resolveMember lib ph opts T deps content contractName st (EventDefinition n) =
     Inr (st\<lparr>eventDefinitions := eventDefinitions st @ [n]\<rparr>)"
| "resolveMember lib ph opts T deps content contractName st m = Inr st"

definition assignAll ::
  "(string \<rightharpoonup> (string \<rightharpoonup> jsval)) \<Rightarrow> (string \<rightharpoonup> jsval) \<Rightarrow> string list \<Rightarrow> (string \<rightharpoonup> jsval)" where
  "assignAll table temp ds =
     foldl (\<lambda>m dep. m ++ (case table dep of None \<Rightarrow> Map.empty | Some t \<Rightarrow> t)) temp ds"

fun resolveItem ::
  "builder \<Rightarrow> parserHelpers \<Rightarrow> options \<Rightarrow> tables \<Rightarrow> (string \<rightharpoonup> string list) \<Rightarrow> string
     \<Rightarrow> resolver \<Rightarrow> item \<Rightarrow> error + resolver" where
  "resolveItem lib ph opts T deps content st (ContractDefinition contractName k bases ms) =
     (case deps contractName of
        None \<Rightarrow> Inl TypeError
      | Some ds \<Rightarrow>
          (case foldE (resolveMember lib ph opts T deps content contractName)
                  (st\<lparr>tempUserDefinedStateVars :=
                        assignAll (userDefinedStateVars T) (tempUserDefinedStateVars st)
                          (ds @ [contractName]),
                      tempStateVars :=
                        assignAll (stateVars T) (tempStateVars st) (ds @ [contractName])\<rparr>)
                  ms of
             Inl e \<Rightarrow> Inl e
           | Inr st1 \<Rightarrow>
               Inr (st1\<lparr>tempUserDefinedStateVars := Map.empty,
                         tempStateVars := Map.empty\<rparr>)))"
| "resolveItem lib ph opts T deps content st (FileLevel m) =
     resolveMember lib ph opts T deps content ''0_global'' st m"

text \<open>The body of the second file loop: both traversals of one tree.\<close>

definition analyseFile ::
  "builder \<Rightarrow> parserHelpers \<Rightarrow> options \<Rightarrow> tables \<Rightarrow> (string \<rightharpoonup> string list) \<Rightarrow> string
     \<Rightarrow> digraph \<Rightarrow> sourceUnit \<Rightarrow> error + digraph" where
  "analyseFile lib ph opts T deps content g ast =
     (case registerNodes lib deps g ast of
        Inl e \<Rightarrow> Inl e
      | Inr g1 \<Rightarrow>
          (case foldE (resolveItem lib ph opts T deps content) (initResolver g1) ast of
             Inl e \<Rightarrow> Inl e
           | Inr st \<Rightarrow> Inr (rgraph st)))"

section \<open>graph\<close>

text \<open>
  The first file loop. \<open>parse\<close> is the external parser (\<open>None\<close> when it throws).
  The accumulator holds the tables, the trees, the variable \<^verbatim>\<open>content\<close> and the
  diagnostics; a directory is reported and skipped with \<^verbatim>\<open>continue\<close>.
\<close>

fun loadFiles ::
  "options \<Rightarrow> (string \<Rightarrow> sourceUnit option) \<Rightarrow> fs \<Rightarrow> path
     \<Rightarrow> tables \<times> sourceUnit list \<times> string \<times> string list \<Rightarrow> string list
     \<Rightarrow> error + tables \<times> sourceUnit list \<times> string \<times> string list" where
  "loadFiles opts parse fs cwd acc [] = Inr acc"
| "loadFiles opts parse fs cwd (T, asts, content, diag) (file # files) =
     (let collect = (\<lambda>c.
            case parse c of
              None \<Rightarrow> Inl ParseError
            | Some ast \<Rightarrow>
                loadFiles opts parse fs cwd (collectFile T ast, asts @ [ast], c, diag) files)
      in
      if \<not> contentsInFilePath opts then
        (case fs (path_resolve cwd file) of
           None \<Rightarrow> Inl FsError
         | Some Dir \<Rightarrow>
             loadFiles opts parse fs cwd
               (T, asts, content, diag @ [''Skipping directory '' @ file]) files
         | Some (File c) \<Rightarrow> collect c)
      else collect file)"

text \<open>
  The whole of \<^verbatim>\<open>graph\<close> up to the serialisation: the graph built and the
  diagnostics written. The outer \<open>option\<close> is the fuel of \<open>importProfiler\<close>.
\<close>

definition resolveTrees ::
  "builder \<Rightarrow> parserHelpers \<Rightarrow> options \<Rightarrow> tables \<Rightarrow> string \<Rightarrow> sourceUnit list \<Rightarrow> error + digraph" where
  "resolveTrees lib ph opts T content fileASTs =
     (case linearize (dependencies T) of
        None \<Rightarrow> Inl InconsistentInheritance
      | Some l \<Rightarrow> foldE (analyseFile lib ph opts T (map_of l) content) (graph T) fileASTs)"

definition analyse ::
  "builder \<Rightarrow> parserHelpers \<Rightarrow> options \<Rightarrow> (string \<Rightarrow> sourceUnit option) \<Rightarrow> fs \<Rightarrow> path
     \<Rightarrow> string list \<Rightarrow> string list \<Rightarrow> error + digraph \<times> string list" where
  "analyse lib ph opts parse fs cwd diag0 files =
     (case loadFiles opts parse fs cwd (initTables, [], [], diag0) files of
        Inl e \<Rightarrow> Inl e
      | Inr (T, fileASTs, content, diag) \<Rightarrow>
          (case resolveTrees lib ph opts T content fileASTs of
             Inl e \<Rightarrow> Inl e
           | Inr g \<Rightarrow> Inr (g, diag)))"

text \<open>The same on trees already parsed, as the first loop collects them.\<close>

definition graphOfTrees ::
  "builder \<Rightarrow> parserHelpers \<Rightarrow> options \<Rightarrow> sourceUnit list \<Rightarrow> error + digraph" where
  "graphOfTrees lib ph opts fileASTs =
     resolveTrees lib ph opts (foldl collectFile initTables fileASTs) [] fileASTs"

definition graphOf ::
  "nat \<Rightarrow> builder \<Rightarrow> parserHelpers \<Rightarrow> options \<Rightarrow> (string \<Rightarrow> sourceUnit option)
     \<Rightarrow> (string \<Rightarrow> string list option) \<Rightarrow> fs \<Rightarrow> path \<Rightarrow> string list
     \<Rightarrow> (error + digraph \<times> string list) option" where
  "graphOf fuel lib ph opts parse importsOf fs cwd files =
     (if files = [] then Some (Inl EmptyInput)
      else if \<not> contentsInFilePath opts \<and> importer opts then
        (case importProfiler fuel importsOf fs cwd files
                \<lparr>importedFiles = [], diagnostics = []\<rparr> of
           None \<Rightarrow> None
         | Some (Inl e) \<Rightarrow> Some (Inl e)
         | Some (Inr p) \<Rightarrow>
             Some (analyse lib ph opts parse fs cwd (diagnostics p)
                     (map render (importedFiles p))))
      else Some (analyse lib ph opts parse fs cwd [] (uniq files)))"

text \<open>
  Modelled from the spec: \<^verbatim>\<open>utils/parserHelpers\<close> is not among the sources. For
  running the model on examples, a plain-name call is one whose callee is an
  identifier that names no contract, event or struct of the dependencies and no
  custom error; no expression is taken as a built-in variable or a typecast.
\<close>

definition plainHelpers :: parserHelpers where
  "plainHelpers =
     \<lparr>isRegularFunctionCall = (\<lambda>node names events structs errors.
         case node of
           FunctionCall (Identifier n) as \<Rightarrow>
             n \<notin> set names \<and> Str n \<notin> set events \<and> Str n \<notin> set structs \<and> n \<notin> set errors
         | _ \<Rightarrow> False),
      isMemberAccessOfAddress = (\<lambda>node. False),
      isAContractTypecast = (\<lambda>node names. False),
      isSpecialVariable = (\<lambda>e. False),
      getSpecialVariableType = (\<lambda>e. Undefined),
      isElementaryTypecast = (\<lambda>e. False)\<rparr>"

definition defaultOptions :: options where
  "defaultOptions =
     \<lparr>contentsInFilePath = True, importer = False, libraries = False,
      enableModifierEdges = False\<rparr>"


section \<open>Example inputs\<close>

definition fn :: "string \<Rightarrow> bodyNode list \<Rightarrow> member" where
  "fn n b = FunctionDefinition (FunDef (Str n) False False False b)"

text \<open>
  \<^verbatim>\<open>library SafeMath { function add(..) }\<close> and
  \<^verbatim>\<open>contract Token { using SafeMath for uint256; function f() { uint256 a; a.add(b); } }\<close>
\<close>

definition tokenExample :: sourceUnit where
  "tokenExample =
     [ContractDefinition ''SafeMath'' ''library'' [] [fn ''add'' []],
      ContractDefinition ''Token'' ''contract'' []
        [UsingForDeclaration (Some (ElementaryTypeName ''uint256'')) ''SafeMath'',
         fn ''f'' [VariableDeclaration (Variable (Str ''a'') (ElementaryTypeName ''uint256'')),
                   FunctionCallNode (MemberAccess (Identifier ''a'') ''add'')
                     [(Identifier ''b'', 0, 0)]]]]"

text \<open>
  \<^verbatim>\<open>contract A { function f() }\<close>, \<^verbatim>\<open>contract B is A { function f() }\<close>,
  \<^verbatim>\<open>contract C is B { function g() { super.f(); } }\<close>
\<close>

definition superExample :: sourceUnit where
  "superExample =
     [ContractDefinition ''A'' ''contract'' [] [fn ''f'' []],
      ContractDefinition ''B'' ''contract'' [''A''] [fn ''f'' []],
      ContractDefinition ''C'' ''contract'' [''B'']
        [fn ''g'' [FunctionCallNode (MemberAccess (Identifier ''super'') ''f'') []]]]"

text \<open>
  \<^verbatim>\<open>contract B { function foo() }\<close>,
  \<^verbatim>\<open>contract C is B { function g() { foo(); } }\<close>
\<close>

definition inheritExample :: sourceUnit where
  "inheritExample =
     [ContractDefinition ''B'' ''contract'' [] [fn ''foo'' []],
      ContractDefinition ''C'' ''contract'' [''B'']
        [fn ''g'' [FunctionCallNode (Identifier ''foo'') []]]]"

text \<open>\<^verbatim>\<open>contract A { function f() }\<close>, \<^verbatim>\<open>contract B is A { function f() }\<close>\<close>

definition overrideExample :: sourceUnit where
  "overrideExample =
     [ContractDefinition ''A'' ''contract'' [] [fn ''f'' []],
      ContractDefinition ''B'' ''contract'' [''A''] [fn ''f'' []]]"

text \<open>\<^verbatim>\<open>modifier m(uint256 x) { _; }\<close>\<close>

definition modifierExample :: member where
  "modifierExample =
     ModifierDefinition ''m''
       [ParameterList [Variable (Str ''x'') (ElementaryTypeName ''uint256'')],
        VariableDeclaration (Variable (Str ''x'') (ElementaryTypeName ''uint256''))]"

text \<open>
  \<^verbatim>\<open>contract M { modifier m(Token t) { _; } function f() { t.foo(); } }\<close>
\<close>

definition leakExample :: sourceUnit where
  "leakExample =
     [ContractDefinition ''M'' ''contract'' []
        [ModifierDefinition ''m''
           [ParameterList [Variable (Str ''t'') (UserDefinedTypeName ''Token'')]],
         fn ''f'' [FunctionCallNode (MemberAccess (Identifier ''t'') ''foo'') []]]]"

text \<open>
  A project \<^verbatim>\<open>/p\<close> with the directory \<^verbatim>\<open>/p/dir.sol\<close> and the file
  \<^verbatim>\<open>/p/a.sol\<close>, which imports nothing.
\<close>

definition dirFs :: fs where
  "dirFs = [[''p''] \<mapsto> Dir, [''p'', ''dir.sol''] \<mapsto> Dir, [''p'', ''a.sol''] \<mapsto> File []]"

text \<open>
  A project \<^verbatim>\<open>/p\<close> with \<^verbatim>\<open>/p/remappings.txt\<close>, the importing file
  \<^verbatim>\<open>/p/src/a.sol\<close> and the two candidate targets of the import
  \<^verbatim>\<open>@oz/token/ERC20.sol\<close>.
\<close>

definition remapFs :: "string \<Rightarrow> fs" where
  "remapFs manifest =
     [[''p''] \<mapsto> Dir, [''p'', ''src''] \<mapsto> Dir, [''p'', ''src'', ''a.sol''] \<mapsto> File [],
      [''p'', ''remappings.txt''] \<mapsto> File manifest,
      [''p'', ''lib'', ''openzeppelin'', ''token'', ''ERC20.sol''] \<mapsto> File [],
      [''p'', ''@oz'', ''token'', ''ERC20.sol''] \<mapsto> File []]"

text \<open>Manifests for \<open>remapFs\<close>, one line each row.\<close>

definition manifestA :: string where
  "manifestA = ''x=y'' @ [CHR 0x0A] @ ''@oz/=lib/openzeppelin/''"

definition manifestB :: string where
  "manifestB = ''x=y'' @ [CHR 0x0A] @ ''a=b=c''"

definition manifestC :: string where
  "manifestC = ''@oz/=lib/openzeppelin/'' @ [CHR 0x0A] @ ''a=b=c''"

definition manifestD :: string where
  "manifestD = ''@oz-x/=lib/x/'' @ [CHR 0x0A] @ ''@oz/=lib/openzeppelin/''"


text \<open>
  Two files, the derived contract first:
  \<^verbatim>\<open>contract C is A { function f() { super.f(); } }\<close> and
  \<^verbatim>\<open>contract A { function f() }\<close>
\<close>

definition superSelfFiles :: "sourceUnit list" where
  "superSelfFiles =
     [[ContractDefinition ''C'' ''contract'' [''A'']
         [fn ''f'' [FunctionCallNode (MemberAccess (Identifier ''super'') ''f'') []]]],
      [ContractDefinition ''A'' ''contract'' [] [fn ''f'' []]]]"

text \<open>The same two contracts in one file, the base first.\<close>

definition superSelfExample :: sourceUnit where
  "superSelfExample =
     [ContractDefinition ''A'' ''contract'' [] [fn ''f'' []],
      ContractDefinition ''C'' ''contract'' [''A'']
        [fn ''f'' [FunctionCallNode (MemberAccess (Identifier ''super'') ''f'') []]]]"

text \<open>
  Two files, the derived contract first:
  \<^verbatim>\<open>contract C is B { function g() { foo(); } }\<close> and
  \<^verbatim>\<open>contract B { function foo() }\<close>
\<close>

definition derivedFirstFiles :: "sourceUnit list" where
  "derivedFirstFiles =
     [[ContractDefinition ''C'' ''contract'' [''B'']
         [fn ''g'' [FunctionCallNode (Identifier ''foo'') []]]],
      [ContractDefinition ''B'' ''contract'' [] [fn ''foo'' []]]]"

text \<open>
  Two files: \<^verbatim>\<open>contract A { function f() {} function g() { f(); } }\<close> and
  \<^verbatim>\<open>contract B is A { function f() {} }\<close>
\<close>

definition twoFileOverride :: "sourceUnit list" where
  "twoFileOverride =
     [[ContractDefinition ''A'' ''contract'' []
         [fn ''f'' [], fn ''g'' [FunctionCallNode (Identifier ''f'') []]]],
      [ContractDefinition ''B'' ''contract'' [''A''] [fn ''f'' []]]]"

text \<open>
  Two files, each with a contract followed by a file-level function \<^verbatim>\<open>f\<close>:
  \<^verbatim>\<open>contract X {} function f() {}\<close> and \<^verbatim>\<open>contract Y {} function f() {}\<close>
\<close>

definition staleClusterFiles :: "sourceUnit list" where
  "staleClusterFiles =
     [[ContractDefinition ''X'' ''contract'' [] [], FileLevel (fn ''f'' [])],
      [ContractDefinition ''Y'' ''contract'' [] [], FileLevel (fn ''f'' [])]]"




section \<open>Library dispatch\<close>

text \<open>
  The guard of the dispatch asks whether \<^verbatim>\<open>functionsPerContract\<close> has the key of a
  \<^verbatim>\<open>Set\<close>. Unless a contract is named \<^verbatim>\<open>[object Set]\<close>, the block leaves the
  object as it was, or throws where a table has an entry named \<^verbatim>\<open>hasOwnProperty\<close>
  or no table of using-declarations exists for the contract.
\<close>

lemma usingFor_keeps_object:
  "setKey \<notin> dom (functionsPerContract T)
   \<Longrightarrow> usingFor opts T contractName variableType name object = Inl TypeError
       \<or> usingFor opts T contractName variableType name object = Inr (Some object)"
  by (auto simp: usingFor_def Let_def andAlso_def hasOwn_def split: option.splits sum.splits)

text \<open>
  C1. With \<^verbatim>\<open>library SafeMath { function add }\<close> and
  \<^verbatim>\<open>using SafeMath for uint256\<close> inside \<^verbatim>\<open>Token\<close>, the call \<^verbatim>\<open>a.add(b)\<close> on a
  local \<^verbatim>\<open>uint256 a\<close> should give an edge to \<^verbatim>\<open>SafeMath.add\<close>. The run gives the
  single edge from \<^verbatim>\<open>Token.f\<close> to \<^verbatim>\<open>a.add\<close>: the object is not replaced by the library.
\<close>

theorem using_for_call_keeps_object:
  "map_sum id edges (graphOfTrees lib plainHelpers defaultOptions [tokenExample])
     = Inr [(''Token.f'', ''a.add'')]"
proof (cases lib)
  case (Builder v e)
  show ?thesis
    unfolding Builder
    by (cases v rule: bool.exhaust; cases e rule: bool.exhaust; hypsubst; code_simp)
qed

section \<open>Clusters of a merged node\<close>

text \<open>
  C5. Every node should belong to exactly one cluster, and the node of a redeclared
  inherited function should not be added to the cluster of the derived contract. With
  \<^verbatim>\<open>contract A { function f() {} function g() { f(); } }\<close> in a first file and
  \<^verbatim>\<open>contract B is A { function f() {} }\<close> in a second, the node \<^verbatim>\<open>A.f\<close> is in the
  cluster of \<^verbatim>\<open>A\<close> and in the cluster of \<^verbatim>\<open>B\<close>, whether the root lookup finds
  the nodes of clusters (first part) or only the ends of edges (second part): the
  registration adds the merged name to the current cluster without asking whether the
  node exists, which the call resolution does ask. Under the one remaining reading of
  the builder the root lookup finds no node at all and no function is ever merged.
\<close>

theorem merged_node_in_two_clusters:
  "map_sum id (\<lambda>g. clustersOf g ''A.f'')
       (graphOfTrees (Builder True e) plainHelpers defaultOptions twoFileOverride)
     = Inr [clusterId ''A'', clusterId ''B'']
   \<and> map_sum id (\<lambda>g. clustersOf g ''A.f'')
       (graphOfTrees (Builder False True) plainHelpers defaultOptions twoFileOverride)
     = Inr [clusterId ''A'', clusterId ''B'']"
  by (cases e rule: bool.exhaust; hypsubst; code_simp)

text \<open>
  When the root lookup finds the nodes of clusters, one file with the two contracts is
  enough.
\<close>

lemma merged_node_in_two_clusters_one_file:
  "map_sum id (\<lambda>g. clustersOf g ''A.f'')
       (graphOfTrees (Builder True e) plainHelpers defaultOptions [overrideExample])
     = Inr [clusterId ''A'', clusterId ''B'']"
  by (cases e rule: bool.exhaust; hypsubst; code_simp)

text \<open>
  The variable \<^verbatim>\<open>cluster\<close> is not reset on leaving a contract, and the node of a
  file-level function goes to the cluster of the contract before it: under every
  reading of the builder the node \<^verbatim>\<open>0_global.f\<close> is in two clusters.
\<close>

lemma file_level_node_in_two_clusters:
  "map_sum id (\<lambda>g. clustersOf g ''0_global.f'')
       (graphOfTrees lib plainHelpers defaultOptions staleClusterFiles)
     = Inr [clusterId ''X'', clusterId ''Y'']"
proof (cases lib)
  case (Builder v e)
  show ?thesis
    unfolding Builder
    by (cases v rule: bool.exhaust; cases e rule: bool.exhaust; hypsubst; code_simp)
qed

section \<open>Scope exit\<close>

text \<open>The exit hook of a function definition leaves both local tables empty.\<close>

lemma function_exit_clears_locals:
  "resolveMember lib ph opts T deps content contractName st (FunctionDefinition node) = Inr st1
   \<Longrightarrow> localVars st1 = Map.empty \<and> userDefinedLocalVars st1 = Map.empty
       \<and> callingScope st1 = None"
  by (auto split: sum.splits)

text \<open>
  C9. Both local variable tables should be empty after the exit hook of every function
  and every modifier. After the traversal of \<^verbatim>\<open>modifier m(uint256 x)\<close> the scope is
  cleared but \<^verbatim>\<open>localVars\<close> still binds \<^verbatim>\<open>x\<close>: the exit hook of a modifier
  resets \<^verbatim>\<open>callingScope\<close> only, where the exit hook of a function resets the tables too.
\<close>

theorem modifier_locals_survive:
  "map_sum id (\<lambda>st. (localVars st ''x'', callingScope st))
       (resolveMember lib ph opts T deps content ''M'' (initResolver g) modifierExample)
     = Inr (Some (Str ''uint256''), None)"
  by (simp add: modifierExample_def initResolver_def assign_def)

text \<open>
  The binding that survives is used in the next body: in \<^verbatim>\<open>f\<close> the object
  \<^verbatim>\<open>t\<close> is resolved with the parameter type of the modifier, and the edge goes to
  \<^verbatim>\<open>Token.foo\<close>.
\<close>

lemma modifier_parameter_seen_in_function:
  "map_sum id edges (graphOfTrees lib plainHelpers defaultOptions [leakExample])
     = Inr [(''M.f'', ''Token.foo'')]"
proof (cases lib)
  case (Builder v e)
  show ?thesis
    unfolding Builder
    by (cases v rule: bool.exhaust; cases e rule: bool.exhaust; hypsubst; code_simp)
qed

section \<open>Directories among the inputs\<close>

text \<open>The analysis loop reports a directory and goes on with the remaining inputs.\<close>

lemma loadFiles_skips_directory:
  "\<not> contentsInFilePath opts \<Longrightarrow> fs (path_resolve cwd file) = Some Dir
   \<Longrightarrow> loadFiles opts parse fs cwd (T, asts, content, diag) (file # files)
       = loadFiles opts parse fs cwd
           (T, asts, content, diag @ [''Skipping directory '' @ file]) files"
  by simp

text \<open>
  C8. On a directory among the inputs both the import resolver and the analysis loop
  should report it, skip it and go on with the remaining entries. For the inputs
  \<^verbatim>\<open>dir.sol\<close> (a directory) and \<^verbatim>\<open>a.sol\<close> the import resolver reports the directory
  and returns at once, with \<^verbatim>\<open>a.sol\<close> never read: its handler ends with
  \<^verbatim>\<open>return importedFiles\<close> where the analysis loop has \<^verbatim>\<open>continue\<close>.
\<close>

theorem profiler_stops_at_directory:
  "importProfiler 1 (\<lambda>c. Some []) dirFs [''p''] [''dir.sol'', ''a.sol'']
       \<lparr>importedFiles = [], diagnostics = []\<rparr>
     = Some (Inr \<lparr>importedFiles = [],
                  diagnostics = [''Skipping directory: /p/dir.sol'']\<rparr>)"
  by (simp add: dirFs_def path_resolve_def render_def suffix_to_prefix)

text \<open>With the two inputs in the other order the file is read before the return.\<close>

lemma profiler_reads_file_before_directory:
  "importProfiler 1 (\<lambda>c. Some []) dirFs [''p''] [''a.sol'', ''dir.sol'']
       \<lparr>importedFiles = [], diagnostics = []\<rparr>
     = Some (Inr \<lparr>importedFiles = [[''p'', ''a.sol'']],
                  diagnostics = [''Skipping directory: /p/dir.sol'']\<rparr>)"
  by (simp add: dirFs_def path_resolve_def render_def suffix_to_prefix set_add_def)

text \<open>
  An input whose resolved name does not end in \<^verbatim>\<open>.sol\<close>, as most directories, is
  rejected before it is read.
\<close>

lemma profiler_rejects_other_names:
  "\<not> suffix ''.sol'' (render (path_resolve projectDir f))
   \<Longrightarrow> importProfiler n importsOf fs projectDir (f # files) st
       = Some (Inl (InvalidImportPath (render (path_resolve projectDir f))))"
  by (simp add: Let_def)

text \<open>
  The whole run with import expansion on: after the directory nothing is analysed.
\<close>

lemma graph_of_directory_first:
  "graphOf 1 lib plainHelpers (defaultOptions\<lparr>contentsInFilePath := False, importer := True\<rparr>)
       (\<lambda>c. Some []) (\<lambda>c. Some []) dirFs [''p''] [''dir.sol'', ''a.sol'']
     = Some (Inr (emptyGraph, [''Skipping directory: /p/dir.sol'']))"
  by (simp add: graphOf_def defaultOptions_def dirFs_def path_resolve_def render_def
        suffix_to_prefix analyse_def resolveTrees_def initTables_def linearize_def emptyGraph_def)

section \<open>File-level functions\<close>



section \<open>Remapped imports\<close>

lemma scan_skips:
  "\<forall>l \<in> set pre. length (split_on CHR ''='' l) \<le> 2
        \<and> \<not> includes_str (hd (split_on CHR ''='' l)) base
   \<Longrightarrow> scanRemappings (pre @ rest) base = scanRemappings rest base"
  by (induction pre) (simp_all add: Let_def)

lemma scan_ambiguous:
  "\<forall>l \<in> set pre. \<not> includes_str (hd (split_on CHR ''='' l)) base
   \<Longrightarrow> 2 < length (split_on CHR ''='' bad)
   \<Longrightarrow> scanRemappings (pre @ bad # post) base = Inl AmbiguousRemapping"
  by (induction pre) (simp_all add: Let_def)

lemma join_manifest: "path_join D ''remappings.txt'' = D @ [''remappings.txt'']"
  by (simp add: path_join_def)

text \<open>
  C6. When the manifest found in the directory \<open>D\<close> by the upward walk has the line
  \<^verbatim>\<open>@oz/=lib/openzeppelin/\<close> as its first line whose prefix contains \<^verbatim>\<open>@oz\<close>, and
  no line before it has more than one \<^verbatim>\<open>=\<close>, the import
  \<^verbatim>\<open>@oz/token/ERC20.sol\<close> resolves to \<^verbatim>\<open>D/lib/openzeppelin/token/ERC20.sol\<close> if
  that is a regular file, and fails with the unresolved-import error otherwise.
\<close>

theorem remapped_import_resolves:
  assumes root: "findDepRoot fs projectDir (split_len (path_dirname file) - 1)
                   (butlast (path_dirname file)) = Inr (D, True)"
    and manifest: "fs (D @ [''remappings.txt'']) = Some (File manifest)"
    and lines: "split_lines manifest = pre @ ''@oz/=lib/openzeppelin/'' # post"
    and pre: "\<forall>l \<in> set pre. length (split_on CHR ''='' l) \<le> 2
                \<and> \<not> includes_str (hd (split_on CHR ''='' l)) ''@oz''"
  shows "resolveImportPath fs file ''@oz/token/ERC20.sol'' projectDir
           = (case fs (D @ [''lib'', ''openzeppelin'', ''token'', ''ERC20.sol'']) of
                Some (File c) \<Rightarrow> Inr (D @ [''lib'', ''openzeppelin'', ''token'', ''ERC20.sol''])
              | _ \<Rightarrow> Inl (UnresolvedImport
                            (D @ [''lib'', ''openzeppelin'', ''token'', ''ERC20.sol''])))"
proof -
  have base: "hd (split_on CHR ''/'' ''@oz/token/ERC20.sol'') = ''@oz''"
    by simp
  have scan: "scanRemappings (split_lines manifest) ''@oz'' = Inr (''@oz/'', ''lib/openzeppelin/'')"
    unfolding lines scan_skips [OF pre] by (simp add: Let_def)
  have target: "path_join D ''lib/openzeppelin/token/ERC20.sol''
                  = D @ [''lib'', ''openzeppelin'', ''token'', ''ERC20.sol'']"
    by (simp add: path_join_def)
  show ?thesis
    using root manifest
    by (simp add: resolveImportPath_def Let_def join_manifest base scan target
             replace_first_def split: option.splits entry.splits)
qed

theorem remapped_import_resolves_witness:
  "findDepRoot (remapFs manifestA) [''p''] (split_len (path_dirname [''p'', ''src'', ''a.sol'']) - 1)
       (butlast (path_dirname [''p'', ''src'', ''a.sol''])) = Inr ([''p''], True)
   \<and> remapFs manifestA ([''p''] @ [''remappings.txt'']) = Some (File manifestA)
   \<and> split_lines manifestA = [''x=y''] @ ''@oz/=lib/openzeppelin/'' # []
   \<and> length (split_on CHR ''='' ''x=y'') \<le> 2
   \<and> \<not> includes_str (hd (split_on CHR ''='' ''x=y'')) ''@oz''
   \<and> resolveImportPath (remapFs manifestA) [''p'', ''src'', ''a.sol''] ''@oz/token/ERC20.sol'' [''p'']
       = Inr [''p'', ''lib'', ''openzeppelin'', ''token'', ''ERC20.sol'']"
proof -
  have h1: "findDepRoot (remapFs manifestA) [''p''] (split_len (path_dirname [''p'', ''src'', ''a.sol'']) - 1)
       (butlast (path_dirname [''p'', ''src'', ''a.sol''])) = Inr ([''p''], True)"
    by code_simp
  have h2: "remapFs manifestA ([''p''] @ [''remappings.txt'']) = Some (File manifestA)"
    by (simp add: remapFs_def)
  have h3: "split_lines manifestA = [''x=y''] @ ''@oz/=lib/openzeppelin/'' # []"
    by code_simp
  have h4: "\<forall>l \<in> set [''x=y'']. length (split_on CHR ''='' l) \<le> 2
                \<and> \<not> includes_str (hd (split_on CHR ''='' l)) ''@oz''"
    by simp
  have t: "remapFs manifestA [''p'', ''lib'', ''openzeppelin'', ''token'', ''ERC20.sol''] = Some (File [])"
    by (simp add: remapFs_def)
  have c: "resolveImportPath (remapFs manifestA) [''p'', ''src'', ''a.sol''] ''@oz/token/ERC20.sol'' [''p'']
       = Inr [''p'', ''lib'', ''openzeppelin'', ''token'', ''ERC20.sol'']"
    using remapped_import_resolves [OF h1 h2 h3 h4] t by simp
  from h1 h2 h3 h4 c show ?thesis by simp
qed

text \<open>
  A manifest that contains the line after a line whose prefix also contains
  \<^verbatim>\<open>@oz\<close>: the earlier line ends the scan, its prefix does not occur in the import,
  and the import resolves under \<open>D\<close> unchanged.
\<close>

theorem earlier_matching_line_shadows:
  "resolveImportPath (remapFs manifestD) [''p'', ''src'', ''a.sol''] ''@oz/token/ERC20.sol'' [''p'']
     = Inr [''p'', ''@oz'', ''token'', ''ERC20.sol'']"
  by code_simp

text \<open>
  C7. A line with more than one \<^verbatim>\<open>=\<close> makes the resolution of a remapped import
  fail with the multiple-assignment error when no line before it has a prefix that
  contains the leading segment of the import.
\<close>

theorem ambiguous_line_before_match:
  assumes rel: "take 1 imp \<noteq> ''.''" "take 1 imp \<noteq> ''/''"
    and root: "findDepRoot fs projectDir (split_len (path_dirname file) - 1)
                   (butlast (path_dirname file)) = Inr (D, True)"
    and manifest: "fs (D @ [''remappings.txt'']) = Some (File manifest)"
    and lines: "split_lines manifest = pre @ bad # post"
    and bad: "2 < length (split_on CHR ''='' bad)"
    and pre: "\<forall>l \<in> set pre. \<not> includes_str (hd (split_on CHR ''='' l)) (hd (split_on CHR ''/'' imp))"
  shows "resolveImportPath fs file imp projectDir = Inl AmbiguousRemapping"
  using rel root manifest
  by (simp add: resolveImportPath_def Let_def join_manifest lines scan_ambiguous [OF pre bad])

theorem ambiguous_line_before_match_witness:
  "take 1 ''@oz/token/ERC20.sol'' \<noteq> ''.'' \<and> take 1 ''@oz/token/ERC20.sol'' \<noteq> ''/''
   \<and> findDepRoot (remapFs manifestB) [''p''] (split_len (path_dirname [''p'', ''src'', ''a.sol'']) - 1)
       (butlast (path_dirname [''p'', ''src'', ''a.sol''])) = Inr ([''p''], True)
   \<and> remapFs manifestB ([''p''] @ [''remappings.txt'']) = Some (File manifestB)
   \<and> split_lines manifestB = [''x=y''] @ ''a=b=c'' # []
   \<and> 2 < length (split_on CHR ''='' ''a=b=c'')
   \<and> \<not> includes_str (hd (split_on CHR ''='' ''x=y''))
            (hd (split_on CHR ''/'' ''@oz/token/ERC20.sol''))
   \<and> resolveImportPath (remapFs manifestB) [''p'', ''src'', ''a.sol''] ''@oz/token/ERC20.sol'' [''p'']
       = Inl AmbiguousRemapping"
proof -
  have r1: "take 1 ''@oz/token/ERC20.sol'' \<noteq> ''.''" and r2: "take 1 ''@oz/token/ERC20.sol'' \<noteq> ''/''"
    by simp_all
  have h1: "findDepRoot (remapFs manifestB) [''p''] (split_len (path_dirname [''p'', ''src'', ''a.sol'']) - 1)
       (butlast (path_dirname [''p'', ''src'', ''a.sol''])) = Inr ([''p''], True)"
    by code_simp
  have h2: "remapFs manifestB ([''p''] @ [''remappings.txt'']) = Some (File manifestB)"
    by (simp add: remapFs_def)
  have h3: "split_lines manifestB = [''x=y''] @ ''a=b=c'' # []"
    by code_simp
  have h4: "2 < length (split_on CHR ''='' ''a=b=c'')"
    by simp
  have h5: "\<forall>l \<in> set [''x=y'']. \<not> includes_str (hd (split_on CHR ''='' l))
                                 (hd (split_on CHR ''/'' ''@oz/token/ERC20.sol''))"
    by simp
  have c: "resolveImportPath (remapFs manifestB) [''p'', ''src'', ''a.sol'']
             ''@oz/token/ERC20.sol'' [''p''] = Inl AmbiguousRemapping"
    by (rule ambiguous_line_before_match [OF r1 r2 h1 h2 h3 h4 h5])
  from h1 h2 h3 c show ?thesis by simp
qed

text \<open>
  A manifest whose first line matches the import and whose second line has two
  \<^verbatim>\<open>=\<close>: the scan stops at the first line and the import resolves.
\<close>

theorem ambiguous_line_after_match_not_read:
  "resolveImportPath (remapFs manifestC) [''p'', ''src'', ''a.sol''] ''@oz/token/ERC20.sol'' [''p'']
     = Inr [''p'', ''lib'', ''openzeppelin'', ''token'', ''ERC20.sol'']"
  by code_simp


section \<open>Calls through super\<close>

text \<open>
  The search for the target of \<^verbatim>\<open>super.m(...)\<close> runs over the whole linearization,
  which starts with the calling contract: when that contract declares \<open>m\<close> itself,
  it is the contract found.
\<close>

lemma super_search_finds_caller:
  "deps C = Some (C # ancestors) \<Longrightarrow> declares T (Str m) C = Inr True
   \<Longrightarrow> filterE (declares T (Str m)) ancestors = Inr ms
   \<Longrightarrow> targetContract T deps st C (Str ''super'') (Str m) = Inr (Some C)"
  by (simp add: targetContract_def)

text \<open>
  C2. For a call \<^verbatim>\<open>super.m(...)\<close> inside \<open>C\<close> the search should leave \<open>C\<close> out and
  the edge should go to the nearest ancestor that declares \<open>m\<close>. With
  \<^verbatim>\<open>contract C is A { function f() { super.f(); } }\<close> in the first file and
  \<^verbatim>\<open>contract A { function f() }\<close> in the second, the edge goes from \<^verbatim>\<open>C.f\<close> to
  \<^verbatim>\<open>C.f\<close> itself and not to \<^verbatim>\<open>A.f\<close>, under every reading of the builder: the
  filter runs over \<^verbatim>\<open>dependencies[contractName]\<close>, whose first element is \<open>C\<close>.
\<close>

theorem super_call_targets_caller_itself:
  "map_sum id edges (graphOfTrees lib plainHelpers defaultOptions superSelfFiles)
     = Inr [(''C.f'', ''C.f'')]"
proof (cases lib)
  case (Builder v e)
  show ?thesis
    unfolding Builder
    by (cases v rule: bool.exhaust; cases e rule: bool.exhaust; hypsubst; code_simp)
qed

text \<open>
  With both contracts in one file, base first, the function of \<open>C\<close> is merged onto
  \<^verbatim>\<open>A.f\<close> when the root lookup finds the nodes of clusters, and the two ends of the
  edge are that node; otherwise the edge is again from \<^verbatim>\<open>C.f\<close> to itself.
\<close>

lemma super_call_one_file:
  "map_sum id edges (graphOfTrees (Builder v e) plainHelpers defaultOptions [superSelfExample])
     = Inr [if v then (''A.f'', ''A.f'') else (''C.f'', ''C.f'')]"
  by (cases v rule: bool.exhaust; cases e rule: bool.exhaust; hypsubst; code_simp)

text \<open>
  The example of the specification, \<open>A\<close> and \<open>B is A\<close> declaring \<open>f\<close> and
  \<open>C is B\<close> calling \<^verbatim>\<open>super.f()\<close> in \<open>g\<close>: the contract found is \<open>B\<close>, and the
  edge goes to \<^verbatim>\<open>B.f\<close> unless the root lookup finds the nodes of clusters, when the
  function of \<open>B\<close> was merged onto \<^verbatim>\<open>A.f\<close>.
\<close>

lemma super_call_specification_example:
  "map_sum id edges (graphOfTrees (Builder v e) plainHelpers defaultOptions [superExample])
     = Inr [(''C.g'', if v then ''A.f'' else ''B.f'')]"
  by (cases v rule: bool.exhaust; cases e rule: bool.exhaust; hypsubst; code_simp)

section \<open>Calls of inherited functions\<close>

text \<open>
  C3. A plain-name call \<^verbatim>\<open>foo()\<close> from a method of \<open>C\<close>, where \<open>C\<close> extends \<open>B\<close>,
  \<open>B\<close> declares \<open>foo\<close> and \<open>C\<close> does not, should resolve to the node \<^verbatim>\<open>B.foo\<close>,
  not \<^verbatim>\<open>C.foo\<close>. With the file of \<open>C\<close> before the file of \<open>B\<close> the edge goes from
  \<^verbatim>\<open>C.g\<close> to \<^verbatim>\<open>C.foo\<close>, under every reading of the builder: the nodes of a file
  are registered in the same loop pass that resolves its calls, so the node of
  \<^verbatim>\<open>B.foo\<close> does not exist yet when the call in \<open>C\<close> is resolved.
\<close>

theorem inherited_call_before_base_registered:
  "map_sum id edges (graphOfTrees lib plainHelpers defaultOptions derivedFirstFiles)
     = Inr [(''C.g'', ''C.foo'')]"
proof (cases lib)
  case (Builder v e)
  show ?thesis
    unfolding Builder
    by (cases v rule: bool.exhaust; cases e rule: bool.exhaust; hypsubst; code_simp)
qed

text \<open>
  With both contracts in one file, base first, the call resolves to \<^verbatim>\<open>B.foo\<close> when
  the root lookup finds the nodes of clusters, and to \<^verbatim>\<open>C.foo\<close> otherwise.
\<close>

lemma inherited_call_one_file:
  "map_sum id edges (graphOfTrees (Builder v e) plainHelpers defaultOptions [inheritExample])
     = Inr [(''C.g'', if v then ''B.foo'' else ''C.foo'')]"
  by (cases v rule: bool.exhaust; cases e rule: bool.exhaust; hypsubst; code_simp)

section \<open>The shape of a linearization\<close>










lemma dependencies_declareStateVar [simp]:
  "dependencies (declareStateVar c T v) = dependencies T"
  by (cases "(c, T, v)" rule: declareStateVar.cases) simp_all

lemma dependencies_foldl_declare [simp]:
  "dependencies (foldl (declareStateVar c) T vs) = dependencies T"
  by (induction vs arbitrary: T) simp_all

lemma dependencies_collectMember [simp]:
  "dependencies (collectMember c T m) = dependencies T"
  by (cases m) simp_all

lemma dependencies_foldl_collectMember [simp]:
  "dependencies (foldl (collectMember c) T ms) = dependencies T"
  by (induction ms arbitrary: T) simp_all

lemma dependencies_resetContract [simp]:
  "dependencies (resetContract c T) = dependencies T"
  by (simp add: resetContract_def)

lemma dependencies_enterContract [simp]:
  "dependencies (enterContract T c bases) = AList.update c (''0_global'' # bases) (dependencies T)"
  by (simp add: enterContract_def Let_def)


















end
